theory Spec2Isabelle
  imports Complex_Main
begin

section \<open>Shared data model\<close>

text \<open>
  The connectors exchange CloudWatch \<open>MetricDataResults\<close> entries: parallel arrays
  \<open>Timestamps\<close> and \<open>Values\<close> with a label.  JavaScript numbers are idealised:
  sample values are \<^typ>\<open>real\<close> (no rounding, no NaN, no infinities), times are
  \<^typ>\<open>int\<close> epoch seconds.  A \<open>Date\<close> object of the backend is represented by its
  epoch second, so \<open>ts.getTime() / 1000\<close> is the identity and \<open>toISOString\<close> is an
  injective key.  Absent object fields (\<open>Id\<close> after \<open>delete\<close>, \<open>Status\<close>) are
  \<open>None\<close>.
\<close>

record metric_data =
  Id :: "string option"
  Label :: string
  Timestamps :: "int list"
  Values :: "real list"
  Status :: "string option"
  StatusCode :: "string option"

section \<open>Threshold filter (src/src/filter/index.js)\<close>

text \<open>
  \<open>parseFilter\<close> returns either \<open>{ stat: null }\<close> or \<open>{ stat, condition, value }\<close> with
  \<open>stat\<close> in \<open>VALID_STATS\<close> and \<open>condition\<close> in \<open>VALID_CONDITIONS\<close>; the two shapes are
  the two constructors below, the two validated string sets are enumerations.
\<close>

datatype stat_name = StatMIN | StatMAX | StatAVG | StatSUM

datatype condition = Gt | Lt | Eq | Ge | Le | Ne

datatype metric_filter = EmptyFilter | StatFilter stat_name condition real

text \<open>
  The body of the \<open>forEach\<close> over \<open>values.slice(1)\<close>; the state is \<open>(min, max, sum)\<close>.
  The \<open>else if\<close> of the source is kept: \<open>max\<close> is only looked at when the value is
  not a new minimum.
\<close>

definition stat_step :: "real \<Rightarrow> real \<times> real \<times> real \<Rightarrow> real \<times> real \<times> real" where
  "stat_step v = (\<lambda>(mn, mx, sm).
     if v < mn then (v, mx, sm + v)
     else if v > mx then (mn, v, sm + v)
     else (mn, mx, sm + v))"

text \<open>\<open>statMap\<close>: the four statistics of a non-empty series, after the pass.\<close>

definition statMap :: "real \<Rightarrow> real list \<Rightarrow> stat_name \<Rightarrow> real" where
  "statMap v0 rest st =
     (case fold stat_step rest (v0, v0, v0) of (mn, mx, sm) \<Rightarrow>
        (case st of
           StatAVG \<Rightarrow> sm / real (length (v0 # rest))
         | StatMIN \<Rightarrow> mn
         | StatMAX \<Rightarrow> mx
         | StatSUM \<Rightarrow> sm))"

text \<open>The \<open>switch\<close> on \<open>filter.condition\<close>.\<close>

fun applyCondition :: "condition \<Rightarrow> real \<Rightarrow> real \<Rightarrow> bool" where
  "applyCondition Gt s v = (s > v)"
| "applyCondition Ge s v = (s \<ge> v)"
| "applyCondition Lt s v = (s < v)"
| "applyCondition Le s v = (s \<le> v)"
| "applyCondition Eq s v = (s = v)"
| "applyCondition Ne s v = (s \<noteq> v)"

fun statMatchesFilter :: "real list \<Rightarrow> metric_filter \<Rightarrow> bool" where
  "statMatchesFilter vs EmptyFilter = True"
| "statMatchesFilter [] (StatFilter st c v) = False"
| "statMatchesFilter (v0 # rest) (StatFilter st c v) = applyCondition c (statMap v0 rest st) v"

text \<open>
  The part of \<open>getMetricDataEventHandler\<close> after the fetch: \<open>metrics.filter\<close> keeps the
  matching series (their timestamps are converted from \<open>Date\<close> to seconds, the identity
  here).
\<close>

definition getMetricDataEventHandler_filter ::
  "metric_filter \<Rightarrow> metric_data list \<Rightarrow> metric_data list" where
  "getMetricDataEventHandler_filter flt metrics =
     filter (\<lambda>metric. statMatchesFilter (Values metric) flt) metrics"


section \<open>Errors, arguments and the backend\<close>

text \<open>
  \<open>Error(message, { cause })\<close>: a thrown error is a value.  \<open>cause\<close> is \<open>Some ''Validation''\<close>
  for the validation errors the connectors throw themselves and \<open>None\<close> where the
  property is absent (a \<open>TypeError\<close> of the runtime, a failure of the backend call).
\<close>

datatype js_error = Error (message: string) (cause: "string option")

definition validation_error :: "string \<Rightarrow> js_error" where
  "validation_error msg = Error msg (Some ''Validation'')"

definition type_error :: js_error where
  "type_error = Error ''TypeError'' None"

text \<open>An entry of \<open>Arguments\<close>: a string, a number, or any other JSON value.\<close>

datatype js_value = Str string | Num real | Other

text \<open>
  The backend call \<open>await cloudwatch.getMetricData(params)\<close> is external.  Its outcome is
  a parameter of each handler below: \<open>Inl e\<close> when the call throws \<open>e\<close>, \<open>Inr results\<close> for
  the \<open>MetricDataResults\<close> it returns.  \<open>parseFullMetric\<close> (metric-name decoding) is a
  parameter as well, of type \<open>string \<Rightarrow> js_error + 'metric\<close>.
\<close>

section \<open>The walk over the time grid\<close>

text \<open>
  \<open>for (let time = start; time < EndTime; time += Period) body\<close>, the loop of both the
  moving-average and the time-shift connector.  With \<open>Period \<le> 0\<close> and
  \<open>start < EndTime\<close> the loop never ends: the result is then \<open>None\<close>.
\<close>

partial_function (option) for_time ::
  "(int \<Rightarrow> 's \<Rightarrow> 's) \<Rightarrow> int \<Rightarrow> int \<Rightarrow> int \<Rightarrow> 's \<Rightarrow> 's option" where
  "for_time body EndTime Period time s =
     (if time < EndTime then for_time body EndTime Period (time + Period) (body time s)
      else Some s)"

declare for_time.simps [code]

text \<open>
  The map from timestamp to value both connectors build with
  \<open>Timestamps.forEach((ts, index) => map[key(ts)] = Values[index])\<close>: a later entry
  for the same instant overwrites an earlier one, and an index beyond \<open>Values\<close> stores
  \<open>undefined\<close>, which reads like an absent key.
\<close>

fun timestampMap :: "int list \<Rightarrow> real list \<Rightarrow> (int \<rightharpoonup> real) \<Rightarrow> (int \<rightharpoonup> real)" where
  "timestampMap [] vs m = m"
| "timestampMap (ts # rest) vs m =
     timestampMap rest (tl vs) (m(ts := (case vs of [] \<Rightarrow> None | v # _ \<Rightarrow> Some v)))"

text \<open>JavaScript's \<open>a % b\<close> on integers, \<open>b \<noteq> 0\<close>: the sign of the dividend.\<close>

definition js_rem :: "int \<Rightarrow> int \<Rightarrow> int" where
  "js_rem a b = sgn a * (\<bar>a\<bar> mod \<bar>b\<bar>)"

section \<open>Moving average (src/README.md, third source file)\<close>

record mavg_state =
  windowOfValues :: "real option list"
  currentSampleCount :: int
  sampleTotal :: real
  avgTimestamps :: "int list"
  avgValues :: "real list"

text \<open>The body of the loop of \<open>metricDataToMovingAverage\<close>, statement by statement.\<close>

definition push_value :: "real option \<Rightarrow> mavg_state \<Rightarrow> mavg_state" where
  "push_value val s =
     (case val of
        None \<Rightarrow> s\<lparr>windowOfValues := windowOfValues s @ [val]\<rparr>
      | Some v \<Rightarrow> s\<lparr>windowOfValues := windowOfValues s @ [val],
                     currentSampleCount := currentSampleCount s + 1,
                     sampleTotal := sampleTotal s + v\<rparr>)"

definition shift_value :: "mavg_state \<Rightarrow> mavg_state" where
  "shift_value s =
     (case windowOfValues s of
        [] \<Rightarrow> s
      | None # rest \<Rightarrow> s\<lparr>windowOfValues := rest\<rparr>
      | Some v # rest \<Rightarrow> s\<lparr>windowOfValues := rest,
                            currentSampleCount := currentSampleCount s - 1,
                            sampleTotal := sampleTotal s - v\<rparr>)"

definition emit_average :: "int \<Rightarrow> mavg_state \<Rightarrow> mavg_state" where
  "emit_average time s =
     (if currentSampleCount s > 0
      then s\<lparr>avgTimestamps := avgTimestamps s @ [time],
             avgValues := avgValues s @ [sampleTotal s / real_of_int (currentSampleCount s)]\<rparr>
      else s)"

definition movingAverageStep :: "(int \<rightharpoonup> real) \<Rightarrow> int \<Rightarrow> int \<Rightarrow> mavg_state \<Rightarrow> mavg_state" where
  "movingAverageStep tsMap StartTime time s =
     (let s1 = push_value (tsMap time) s;
          s2 = (if time > StartTime then shift_value s1 else s1)
      in if time \<ge> StartTime then emit_average time s2 else s2)"

definition mavg_init :: mavg_state where
  "mavg_init = \<lparr>windowOfValues = [], currentSampleCount = 0, sampleTotal = 0,
                 avgTimestamps = [], avgValues = []\<rparr>"

definition metricDataToMovingAverage ::
  "metric_data \<Rightarrow> int \<Rightarrow> int \<Rightarrow> int \<Rightarrow> int \<Rightarrow> metric_data option" where
  "metricDataToMovingAverage metricData revisedStartTime StartTime EndTime Period =
     map_option
       (\<lambda>s. \<lparr>Id = None, Label = Label metricData, Timestamps = avgTimestamps s,
              Values = avgValues s, Status = Some ''Complete'', StatusCode = None\<rparr>)
       (for_time
          (movingAverageStep (timestampMap (Timestamps metricData) (Values metricData) Map.empty)
             StartTime)
          EndTime Period revisedStartTime mavg_init)"

definition validateGetMetricDataRequest_movingAverage ::
  "(string \<Rightarrow> js_error + 'metric) \<Rightarrow> js_value list \<Rightarrow> js_error + ('metric \<times> string \<times> real)" where
  "validateGetMetricDataRequest_movingAverage parseFullMetric Arguments =
     (case Arguments of
        [Str fullMetric, Str stat, Num numberOfDatapoints] \<Rightarrow>
          if numberOfDatapoints < 2
          then Inl (validation_error ''Number of datapoints must be greater than 1'')
          else (case parseFullMetric fullMetric of
                  Inl e \<Rightarrow> Inl e
                | Inr metric \<Rightarrow> Inr (metric, stat, numberOfDatapoints))
      | [_, _, _] \<Rightarrow> Inl (validation_error ''Unexpected argument type'')
      | _ \<Rightarrow> Inl (validation_error ''Expected 3 arguments''))"

text \<open>
  \<open>timerData.Timestamps.reduce((acc, val) => (acc < val ? acc : val))\<close>; on an empty
  array \<open>reduce\<close> without an initial value throws a \<open>TypeError\<close>.
\<close>

definition earliest_of :: "int list \<Rightarrow> js_error + int" where
  "earliest_of ts =
     (case ts of
        [] \<Rightarrow> Inl type_error
      | t0 # rest \<Rightarrow> Inr (fold (\<lambda>val acc. if acc < val then acc else val) rest t0))"

text \<open>
  The handler.  The walk starts at the earliest timestamp of the \<open>timer\<close> series: a
  \<open>Date\<close> object is always truthy, so the alternative \<open>revisedStartTime\<close> of the
  conditional is never taken, and \<open>revisedStartTime\<close> only reaches the backend call.
  The sixth argument of the call, \<open>numberOfDatapoints\<close>, has no parameter to receive it.
  Fewer than two results make \<open>secondMetric.Id\<close> throw.
\<close>

definition getMetricDataEventHandler_movingAverage ::
  "(string \<Rightarrow> js_error + 'metric) \<Rightarrow> int \<Rightarrow> int \<Rightarrow> int \<Rightarrow> js_value list \<Rightarrow>
   js_error + metric_data list \<Rightarrow> (js_error + metric_data list) option" where
  "getMetricDataEventHandler_movingAverage parseFullMetric StartTime EndTime Period Arguments
     getMetricDataResult =
     (case validateGetMetricDataRequest_movingAverage parseFullMetric Arguments of
        Inl e \<Rightarrow> Some (Inl e)
      | Inr (metric, stat, numberOfDatapoints) \<Rightarrow>
          (case getMetricDataResult of
             Inl e \<Rightarrow> Some (Inl e)
           | Inr [] \<Rightarrow> Some (Inl type_error)
           | Inr [_] \<Rightarrow> Some (Inl type_error)
           | Inr (firstMetric # secondMetric # _) \<Rightarrow>
               (let metricData = (if Id firstMetric = Some ''m1'' then firstMetric else secondMetric);
                    timerData = (if Id secondMetric = Some ''timer'' then secondMetric else firstMetric)
                in case earliest_of (Timestamps timerData) of
                     Inl e \<Rightarrow> Some (Inl e)
                   | Inr earliestTimestamp \<Rightarrow>
                       map_option (\<lambda>averagedMetricData. Inr [averagedMetricData])
                         (metricDataToMovingAverage metricData earliestTimestamp
                            StartTime EndTime Period))))"

section \<open>Time shift (src/src/timeshift/index.js, first source file)\<close>

subsection \<open>Duration strings\<close>

text \<open>
  \<open>/^P(?:(\d+)D)?[T]*(?:(\d+)H)?(?:(\d+)M)?(?:(\d+(?:\.\d{1,3})?)S)?$/\<close>.  Each optional
  group is a maximal run of digits followed by its letter, so the match is deterministic:
  a group that can match at a position must be taken, since no later part of the pattern
  accepts the digits it would leave behind.  A group function returns the captured text
  (\<open>None\<close> for \<open>undefined\<close>) and the rest of the input.
\<close>

definition is_digit :: "char \<Rightarrow> bool" where
  "is_digit c = (c \<in> set ''0123456789'')"

definition opt_group :: "char \<Rightarrow> string \<Rightarrow> string option \<times> string" where
  "opt_group letter s =
     (let ds = takeWhile is_digit s; rest = dropWhile is_digit s
      in if ds \<noteq> [] \<and> rest \<noteq> [] \<and> hd rest = letter then (Some ds, tl rest) else (None, s))"

definition secs_group :: "string \<Rightarrow> string option \<times> string" where
  "secs_group s =
     (let ds = takeWhile is_digit s; rest = dropWhile is_digit s
      in if ds = [] then (None, s)
         else (case rest of
                 [] \<Rightarrow> (None, s)
               | c # r \<Rightarrow>
                   if c = CHR ''S'' then (Some ds, r)
                   else if c = CHR ''.'' then
                     (let fs = takeWhile is_digit r; r2 = dropWhile is_digit r
                      in if 1 \<le> length fs \<and> length fs \<le> 3 \<and> r2 \<noteq> [] \<and> hd r2 = CHR ''S''
                         then (Some (ds @ CHR ''.'' # fs), tl r2) else (None, s))
                   else (None, s)))"

text \<open>
  \<open>parseInt(text, 10)\<close> on a text that starts with a digit: the value of the leading
  run of digits; whatever follows (a decimal point and a fraction) is ignored.
\<close>

definition parseInt10 :: "string \<Rightarrow> int" where
  "parseInt10 s = fold (\<lambda>c n. 10 * n + (int (of_char c) - 48)) (takeWhile is_digit s) 0"

definition group_value :: "string option \<Rightarrow> int" where
  "group_value g = (case g of None \<Rightarrow> 0 | Some text \<Rightarrow> parseInt10 text)"

definition parseISO8601DurationString :: "string \<Rightarrow> js_error + int" where
  "parseISO8601DurationString durationString =
     (case durationString of
        [] \<Rightarrow> Inl (validation_error (''Unrecognized ISO duration '' @ durationString))
      | p # s0 \<Rightarrow>
          if p \<noteq> CHR ''P''
          then Inl (validation_error (''Unrecognized ISO duration '' @ durationString))
          else
            (case opt_group CHR ''D'' s0 of (g1, s1) \<Rightarrow>
             case opt_group CHR ''H'' (dropWhile (\<lambda>c. c = CHR ''T'') s1) of (g2, s2) \<Rightarrow>
             case opt_group CHR ''M'' s2 of (g3, s3) \<Rightarrow>
             case secs_group s3 of (g4, s4) \<Rightarrow>
               if s4 \<noteq> []
               then Inl (validation_error (''Unrecognized ISO duration '' @ durationString))
               else
                 (let days = group_value g1; hours = group_value g2;
                      mins = group_value g3; secs = group_value g4
                  in Inr (((days * 24 + hours) * 60 + mins) * 60 + secs))))"

definition validateGetMetricDataRequest_timeshift ::
  "(string \<Rightarrow> js_error + 'metric) \<Rightarrow> js_value list \<Rightarrow>
   js_error + ('metric \<times> string \<times> int \<times> real)" where
  "validateGetMetricDataRequest_timeshift parseFullMetric Arguments =
     (case Arguments of
        [Str fullMetric, Str stat, Str shiftIntervalString, Num numberOfShifts] \<Rightarrow>
          (case parseISO8601DurationString shiftIntervalString of
             Inl e \<Rightarrow> Inl e
           | Inr shiftInterval \<Rightarrow>
               if shiftInterval \<le> 0
               then Inl (validation_error
                      (''Illegal shift interval '' @ shiftIntervalString @ '' specified, must be > 0 seconds''))
               else if numberOfShifts < 1 \<or> numberOfShifts > 10
               then Inl (validation_error ''Number of shifts must be between 1 and 10 inclusive'')
               else (case parseFullMetric fullMetric of
                       Inl e \<Rightarrow> Inl e
                     | Inr metric \<Rightarrow> Inr (metric, stat, shiftInterval, numberOfShifts)))
      | [_, _, _, _] \<Rightarrow> Inl (validation_error ''Unexpected argument type'')
      | _ \<Rightarrow> Inl (validation_error ''Expected 4 arguments''))"

subsection \<open>Labels\<close>

text \<open>The decimal rendering of a whole number inside a template literal.\<close>

fun show_nat :: "nat \<Rightarrow> string" where
  "show_nat n =
     (if n < 10 then [''0123456789'' ! n]
      else show_nat (n div 10) @ [''0123456789'' ! (n mod 10)])"

declare show_nat.simps [simp del]

definition display_part :: "int \<Rightarrow> string \<Rightarrow> string" where
  "display_part n suffix = (if n > 0 then show_nat (nat n) @ suffix @ '' '' else [])"

definition trim_spaces :: "string \<Rightarrow> string" where
  "trim_spaces s =
     rev (dropWhile (\<lambda>c. c = CHR '' '') (rev (dropWhile (\<lambda>c. c = CHR '' '') s)))"

definition convertSecondsToHumanReadable :: "int \<Rightarrow> string" where
  "convertSecondsToHumanReadable seconds =
     (let d = seconds div (3600 * 24);
          h = js_rem seconds (3600 * 24) div 3600;
          m = js_rem seconds 3600 div 60;
          s = js_rem seconds 60
      in trim_spaces (display_part d ''d'' @ display_part h ''h'' @
                      display_part m ''m'' @ display_part s ''s''))"

subsection \<open>Shifting\<close>

text \<open>The body of the inner loop of \<open>shiftFullMetricData\<close>; the state is the pair
  of the arrays \<open>metric.Timestamps\<close> and \<open>metric.Values\<close>.\<close>

definition shift_body :: "(int \<rightharpoonup> real) \<Rightarrow> int \<Rightarrow> int \<Rightarrow> int list \<times> real list \<Rightarrow> int list \<times> real list" where
  "shift_body fullMetricDataMap timeOffset time = (\<lambda>(tss, vs).
     (case fullMetricDataMap (time - timeOffset) of
        None \<Rightarrow> (tss, vs)
      | Some v \<Rightarrow> (tss @ [time], vs @ [v])))"

text \<open>One pass of the outer loop, for the shift index \<open>i\<close>.\<close>

definition shifted_metric ::
  "(int \<rightharpoonup> real) \<Rightarrow> int \<Rightarrow> int \<Rightarrow> int \<Rightarrow> int \<Rightarrow> nat \<Rightarrow> metric_data option" where
  "shifted_metric fullMetricDataMap StartTime EndTime Period shiftInterval i =
     (let timeOffset = int i * shiftInterval
      in map_option
           (\<lambda>(tss, vs).
              \<lparr>Id = None,
               Label = (if i = 0 then ''current''
                        else ''- '' @ convertSecondsToHumanReadable timeOffset),
               Timestamps = tss, Values = vs,
               Status = Some ''Complete'', StatusCode = None\<rparr>)
           (for_time (shift_body fullMetricDataMap timeOffset) EndTime Period StartTime ([], [])))"

text \<open>
  \<open>for (let i = 0; i <= numberOfShifts; i++)\<close> with a real \<open>numberOfShifts\<close> runs for
  \<open>i = 0, \<dots>, \<lfloor>numberOfShifts\<rfloor>\<close>, and not at all below zero.  The whole call diverges
  as soon as one inner loop does.
\<close>

definition shiftFullMetricData ::
  "metric_data \<Rightarrow> int \<Rightarrow> int \<Rightarrow> int \<Rightarrow> int \<Rightarrow> real \<Rightarrow> metric_data list option" where
  "shiftFullMetricData fullMetricData StartTime EndTime Period shiftInterval numberOfShifts =
     those (map (shifted_metric
                   (timestampMap (Timestamps fullMetricData) (Values fullMetricData) Map.empty)
                   StartTime EndTime Period shiftInterval)
              [0 ..< nat (\<lfloor>numberOfShifts\<rfloor> + 1)])"

text \<open>
  The handler.  \<open>roundedStart = StartTime - (StartTime % Period)\<close>.  For \<open>Period = 0\<close> the
  remainder is \<open>NaN\<close>, every test \<open>time < EndTime\<close> is false and each series stays empty:
  with integer times this is the walk that starts at \<open>EndTime\<close>.
  An empty result list makes \<open>fullMetricData.Timestamps\<close> throw.
\<close>

definition getMetricDataEventHandler_timeshift ::
  "(string \<Rightarrow> js_error + 'metric) \<Rightarrow> int \<Rightarrow> int \<Rightarrow> int \<Rightarrow> js_value list \<Rightarrow>
   js_error + metric_data list \<Rightarrow> (js_error + metric_data list) option" where
  "getMetricDataEventHandler_timeshift parseFullMetric StartTime EndTime Period Arguments
     gmdResponse =
     (case validateGetMetricDataRequest_timeshift parseFullMetric Arguments of
        Inl e \<Rightarrow> Some (Inl e)
      | Inr (metric, stat, shiftInterval, numberOfShifts) \<Rightarrow>
          (case gmdResponse of
             Inl e \<Rightarrow> Some (Inl e)
           | Inr [] \<Rightarrow> Some (Inl type_error)
           | Inr (fullMetricData # _) \<Rightarrow>
               if Period = 0
               then map_option Inr
                      (shiftFullMetricData fullMetricData EndTime EndTime Period
                         shiftInterval numberOfShifts)
               else map_option Inr
                      (shiftFullMetricData fullMetricData (StartTime - js_rem StartTime Period)
                         EndTime Period shiftInterval numberOfShifts)))"

section \<open>Multi region (src/src/timeshift/index.js, second source file)\<close>

text \<open>
  A regional call either fulfils with its \<open>MetricDataResults\<close> or rejects with an error at
  some instant.  \<open>Promise.all\<close> fulfils with all values, in the order of the calls, when
  every call fulfils; otherwise it rejects with the error of the call that rejected first
  (the earlier call in the list when two instants coincide).
\<close>

datatype 'a settled = Fulfilled 'a | Rejected nat js_error

fun rejections :: "'a settled list \<Rightarrow> (nat \<times> js_error) list" where
  "rejections [] = []"
| "rejections (Fulfilled v # ps) = rejections ps"
| "rejections (Rejected instant e # ps) = (instant, e) # rejections ps"

fun fulfilments :: "'a settled list \<Rightarrow> 'a list" where
  "fulfilments [] = []"
| "fulfilments (Fulfilled v # ps) = v # fulfilments ps"
| "fulfilments (Rejected instant e # ps) = fulfilments ps"

definition promise_all :: "'a settled list \<Rightarrow> js_error + 'a list" where
  "promise_all ps =
     (case rejections ps of
        [] \<Rightarrow> Inr (fulfilments ps)
      | r # rs \<Rightarrow> Inl (snd (fold (\<lambda>x first. if fst x < fst first then x else first) rs r)))"




text \<open>
  \<open>exports.handler\<close>: the \<open>switch\<close> on \<open>EventType\<close> inside \<open>try\<close>, and the \<open>catch\<close> that
  turns a thrown error into \<open>{ Error: { Code, Value } }\<close> with
  \<open>Code = err.cause || 'InternalError'\<close> and \<open>Value = err.message || err\<close>
  (an empty string is falsy).
\<close>

datatype error_value = Message string | Thrown js_error

datatype response =
    MetricDataResults "metric_data list"
  | DescribeResult
  | ErrorResponse (Code: string) (Value: error_value)



section \<open>Histogram (src/unnamed/part_000)\<close>

definition EPSILON :: real where "EPSILON = 1 / 10"
definition BIN_SIZE :: real where "BIN_SIZE = ln (1 + EPSILON)"
definition MAX_BIN_RANGE :: int where "MAX_BIN_RANGE = 7000"
definition MIN_BIN_RANGE :: int where "MIN_BIN_RANGE = - MAX_BIN_RANGE"
definition ZERO_VALUE_BIN :: int where "ZERO_VALUE_BIN = MIN_BIN_RANGE - 1"
definition NEGATIVE_ONE_BIN_OFFSET :: int where "NEGATIVE_ONE_BIN_OFFSET = - 2 * MAX_BIN_RANGE - 2"
definition SMALLEST_BIN :: int where "SMALLEST_BIN = NEGATIVE_ONE_BIN_OFFSET + MAX_BIN_RANGE"
definition MIN_VALUE_FOR_HIST :: real where "MIN_VALUE_FOR_HIST = 1 / 10000"

definition constrainBinToAllowedRange :: "int \<Rightarrow> int" where
  "constrainBinToAllowedRange binNumber =
     (if binNumber > MAX_BIN_RANGE then MAX_BIN_RANGE
      else if binNumber < MIN_BIN_RANGE then MIN_BIN_RANGE
      else binNumber)"

definition getBinNumber :: "real \<Rightarrow> int" where
  "getBinNumber v =
     (if v = 0 then ZERO_VALUE_BIN
      else (let binNumber = constrainBinToAllowedRange \<lfloor>ln \<bar>v\<bar> / BIN_SIZE\<rfloor>
            in if v > 0 then binNumber else NEGATIVE_ONE_BIN_OFFSET - binNumber))"

definition getValueWithinBin :: "int \<Rightarrow> real \<Rightarrow> real" where
  "getValueWithinBin binNum offset =
     (if binNum = ZERO_VALUE_BIN then 0
      else if binNum \<le> SMALLEST_BIN
      then - exp ((real_of_int (constrainBinToAllowedRange (NEGATIVE_ONE_BIN_OFFSET - binNum)) + offset)
                  * BIN_SIZE)
      else exp ((real_of_int (constrainBinToAllowedRange binNum) + offset) * BIN_SIZE))"

definition getBinTop :: "int \<Rightarrow> real" where
  "getBinTop binNumber = getValueWithinBin (binNumber + 1) 0"

text \<open>\<open>Math.round\<close>: the nearest integer, a half rounded up.\<close>

definition js_round :: "real \<Rightarrow> int" where
  "js_round x = \<lfloor>x + 1 / 2\<rfloor>"

text \<open>
  \<open>getLabelForValue(value, unit)\<close>.  \<open>Number.prototype.toPrecision\<close> is a parameter
  (\<open>toPrecision x digits\<close>); the two flags are the outcomes of the tests
  \<open>/millis/i.test(unit)\<close> and \<open>/^sec/i.test(unit)\<close>.
\<close>

definition getLabelForValue :: "(real \<Rightarrow> nat \<Rightarrow> string) \<Rightarrow> real \<Rightarrow> bool \<Rightarrow> bool \<Rightarrow> string" where
  "getLabelForValue toPrecision v isMillis isSeconds =
     (if isMillis then
        (if v < 1000 then toPrecision v 3 @ ''ms''
         else if v < 1000000 then toPrecision (v / 1000) 3 @ ''s''
         else toPrecision (v / 1000) 6 @ ''s'')
      else if isSeconds then
        (if v < 1 then toPrecision (v * 1000) 3 @ ''ms''
         else if v < 1000 then toPrecision v 3 @ ''s''
         else toPrecision v 6 @ ''s'')
      else toPrecision v 6)"

definition show_int :: "int \<Rightarrow> string" where
  "show_int n = (if n < 0 then CHR ''-'' # show_nat (nat (- n)) else show_nat (nat n))"

record 'metric metric_query =
  Query_Id :: string
  Query_Label :: string
  Query_Metric :: 'metric
  Query_Stat :: string
  Query_Period :: int

text \<open>
  The loop of \<open>getHistogramMetricDefinitions\<close>:
  \<open>for (let bin = minBucketNum; bin <= maxBucketNum; bin += incBucket)\<close> over real \<open>bin\<close>.
  The call \<open>getLabelForValue(middle)\<close> passes no unit, so both unit tests are false.
  The result is \<open>None\<close> when the loop never ends.
\<close>

partial_function (option) histogram_loop ::
  "(real \<Rightarrow> nat \<Rightarrow> string) \<Rightarrow> 'metric \<Rightarrow> int \<Rightarrow> int \<Rightarrow> real \<Rightarrow> real \<Rightarrow> real \<Rightarrow>
   'metric metric_query list \<Rightarrow> 'metric metric_query list option" where
  "histogram_loop toPrecision metric rangePeriod maxBucketNum incBucket bin currentBucketBottom
     metricDefinitions =
     (if bin \<le> real_of_int maxBucketNum then
        histogram_loop toPrecision metric rangePeriod maxBucketNum incBucket (bin + incBucket)
          (getBinTop (js_round bin))
          (metricDefinitions @
             [\<lparr>Query_Id = CHR ''m'' # show_int (js_round bin),
               Query_Label =
                 getLabelForValue toPrecision
                   ((getBinTop (js_round bin) + currentBucketBottom) / 2) False False,
               Query_Metric = metric,
               Query_Stat = ''PR('' @ toPrecision currentBucketBottom 6 @ '':'' @
                            toPrecision (getBinTop (js_round bin)) 6 @ '')'',
               Query_Period = rangePeriod\<rparr>])
      else Some metricDefinitions)"

declare histogram_loop.simps [code]

text \<open>
  \<open>bucketCount\<close> is a whole number other than zero (the handler admits 1 to 500).
\<close>

definition getHistogramMetricDefinitions ::
  "(real \<Rightarrow> nat \<Rightarrow> string) \<Rightarrow> 'metric \<Rightarrow> real \<Rightarrow> real \<Rightarrow> int \<Rightarrow> int \<Rightarrow>
   'metric metric_query list option" where
  "getHistogramMetricDefinitions toPrecision metric minimum maximum rangePeriod bucketCount =
     (let useZeroBucketForMin = (minimum < MIN_VALUE_FOR_HIST);
          minBucketNum = (if useZeroBucketForMin then getBinNumber MIN_VALUE_FOR_HIST
                          else getBinNumber minimum);
          maxBucketNum = getBinNumber maximum;
          numBuckets = maxBucketNum - minBucketNum;
          incBucket = real_of_int numBuckets / real_of_int bucketCount
      in histogram_loop toPrecision metric rangePeriod maxBucketNum incBucket
           (real_of_int minBucketNum) minimum [])"

section \<open>Reference notions of the specification\<close>

text \<open>
  The grid of a query window: the timestamps \<open>start + k * Period\<close> below \<open>EndTime\<close>, for a
  positive \<open>Period\<close>, in ascending order.
\<close>

function time_grid :: "int \<Rightarrow> int \<Rightarrow> int \<Rightarrow> int list" where
  "time_grid start EndTime Period =
     (if start < EndTime \<and> 0 < Period then start # time_grid (start + Period) EndTime Period
      else [])"
  by pat_completeness auto
termination
  by (relation "measure (\<lambda>(start, EndTime, Period). nat (EndTime - start))") auto

declare time_grid.simps [simp del]






section \<open>Threshold filter: proofs\<close>








text \<open>
  C8.  The empty predicate passes every input series through, zero-length series
  included, so the output has the members (and the count) of the input; under a
  non-empty predicate a series with no data point never matches, so every series of
  the output has at least one data point.
\<close>

theorem filter_empty_predicate_and_empty_series:
  "getMetricDataEventHandler_filter EmptyFilter metrics = metrics \<and>
   length (getMetricDataEventHandler_filter EmptyFilter metrics) = length metrics \<and>
   statMatchesFilter [] EmptyFilter \<and>
   \<not> statMatchesFilter [] (StatFilter st c th) \<and>
   (\<forall>m \<in> set (getMetricDataEventHandler_filter (StatFilter st c th) metrics).
      Values m \<noteq> [])"
  by (auto simp: getMetricDataEventHandler_filter_def)

theorem filter_empty_predicate_and_empty_series_witness:
  "getMetricDataEventHandler_filter EmptyFilter
     [\<lparr>Id = None, Label = ''idle'', Timestamps = [], Values = [],
        Status = None, StatusCode = None\<rparr>,
      \<lparr>Id = None, Label = ''busy'', Timestamps = [60, 120], Values = [50, 80],
        Status = None, StatusCode = None\<rparr>] =
     [\<lparr>Id = None, Label = ''idle'', Timestamps = [], Values = [],
        Status = None, StatusCode = None\<rparr>,
      \<lparr>Id = None, Label = ''busy'', Timestamps = [60, 120], Values = [50, 80],
        Status = None, StatusCode = None\<rparr>] \<and>
   getMetricDataEventHandler_filter (StatFilter StatMAX Gt 70)
     [\<lparr>Id = None, Label = ''idle'', Timestamps = [], Values = [],
        Status = None, StatusCode = None\<rparr>,
      \<lparr>Id = None, Label = ''busy'', Timestamps = [60, 120], Values = [50, 80],
        Status = None, StatusCode = None\<rparr>] =
     [\<lparr>Id = None, Label = ''busy'', Timestamps = [60, 120], Values = [50, 80],
        Status = None, StatusCode = None\<rparr>]"
  using filter_empty_predicate_and_empty_series
    [of "[\<lparr>Id = None, Label = ''idle'', Timestamps = [], Values = [],
            Status = None, StatusCode = None\<rparr>,
          \<lparr>Id = None, Label = ''busy'', Timestamps = [60, 120], Values = [50, 80],
            Status = None, StatusCode = None\<rparr>]" StatMAX Gt 70]
  by (simp add: getMetricDataEventHandler_filter_def statMap_def stat_step_def)

section \<open>The time grid, the bin mapping and the duration parser: proofs\<close>

lemmas bin_constants =
  EPSILON_def BIN_SIZE_def MAX_BIN_RANGE_def MIN_BIN_RANGE_def ZERO_VALUE_BIN_def
  NEGATIVE_ONE_BIN_OFFSET_def SMALLEST_BIN_def MIN_VALUE_FOR_HIST_def

lemma for_time_fold:
  "0 < Period \<Longrightarrow> for_time body EndTime Period start s = Some (fold body (time_grid start EndTime Period) s)"
proof (induction start EndTime Period arbitrary: s rule: time_grid.induct)
  case (1 start EndTime Period)
  show ?case
  proof (cases "start < EndTime")
    case True
    with 1 show ?thesis
      by (subst for_time.simps, subst time_grid.simps) simp
  next
    case False
    then show ?thesis
      by (subst for_time.simps, subst time_grid.simps) simp
  qed
qed

lemma getBinNumber_pos:
  "0 < v \<Longrightarrow> getBinNumber v = constrainBinToAllowedRange \<lfloor>ln v / BIN_SIZE\<rfloor>"
  by (simp add: getBinNumber_def)

lemma getBinNumber_neg:
  "v < 0 \<Longrightarrow> getBinNumber v = NEGATIVE_ONE_BIN_OFFSET - constrainBinToAllowedRange \<lfloor>ln (- v) / BIN_SIZE\<rfloor>"
  by (simp add: getBinNumber_def)

lemma constrain_range: "- 7000 \<le> constrainBinToAllowedRange b \<and> constrainBinToAllowedRange b \<le> 7000"
  by (simp add: constrainBinToAllowedRange_def bin_constants)

lemma constrain_mono: "a \<le> b \<Longrightarrow> constrainBinToAllowedRange a \<le> constrainBinToAllowedRange b"
  by (simp add: constrainBinToAllowedRange_def bin_constants)

lemma BIN_SIZE_pos: "0 < BIN_SIZE"
  by (simp add: bin_constants)

lemma getBinNumber_mono:
  assumes "0 < a" "a < b"
  shows "getBinNumber a \<le> getBinNumber b"
proof -
  from assms have "ln a \<le> ln b" by simp
  then have "ln a / BIN_SIZE \<le> ln b / BIN_SIZE"
    using BIN_SIZE_pos by (simp add: divide_right_mono)
  then have "\<lfloor>ln a / BIN_SIZE\<rfloor> \<le> \<lfloor>ln b / BIN_SIZE\<rfloor>"
    by (rule floor_mono)
  then show ?thesis
    using assms by (simp add: getBinNumber_pos constrain_mono)
qed

lemma getBinNumber_pos_range: "0 < v \<Longrightarrow> - 7000 \<le> getBinNumber v \<and> getBinNumber v \<le> 7000"
  using constrain_range by (simp add: getBinNumber_pos)

lemma getBinNumber_neg_range: "v < 0 \<Longrightarrow> - 21002 \<le> getBinNumber v \<and> getBinNumber v \<le> - 7002"
  using constrain_range [of "\<lfloor>ln (- v) / BIN_SIZE\<rfloor>"]
  by (simp add: getBinNumber_neg bin_constants)

lemma getBinNumber_zero: "getBinNumber 0 = - 7001"
  by (simp add: getBinNumber_def bin_constants)

text \<open>
  C4.  The bin mapping \<open>getBinNumber\<close> is monotone on the positive reals, gives a value
  and its negation different bins, and gives zero the one bin \<open>ZERO_VALUE_BIN\<close>, which
  no other value has.
\<close>

theorem bin_mapping_monotone_sign_zero:
  "(0 < a \<and> a < b \<longrightarrow> getBinNumber a \<le> getBinNumber b) \<and>
   (x \<noteq> 0 \<longrightarrow> getBinNumber (- x) \<noteq> getBinNumber x) \<and>
   getBinNumber 0 = ZERO_VALUE_BIN \<and>
   (x \<noteq> 0 \<longrightarrow> getBinNumber x \<noteq> getBinNumber 0)"
proof (intro conjI impI)
  assume "0 < a \<and> a < b"
  then show "getBinNumber a \<le> getBinNumber b"
    by (simp add: getBinNumber_mono)
next
  assume x: "x \<noteq> 0"
  show "getBinNumber (- x) \<noteq> getBinNumber x"
  proof (cases "0 < x")
    case True
    with getBinNumber_pos_range [of x] getBinNumber_neg_range [of "- x"] show ?thesis by simp
  next
    case False
    with x have "x < 0" by simp
    with getBinNumber_pos_range [of "- x"] getBinNumber_neg_range [of x] show ?thesis by simp
  qed
  show "getBinNumber x \<noteq> getBinNumber 0"
  proof (cases "0 < x")
    case True
    with getBinNumber_pos_range [of x] show ?thesis by (simp add: getBinNumber_zero)
  next
    case False
    with x have "x < 0" by simp
    with getBinNumber_neg_range [of x] show ?thesis by (simp add: getBinNumber_zero)
  qed
next
  show "getBinNumber 0 = ZERO_VALUE_BIN"
    by (simp add: getBinNumber_def)
qed

lemma getBinNumber_one: "getBinNumber 1 = 0"
  by (simp add: getBinNumber_def constrainBinToAllowedRange_def bin_constants)

theorem bin_mapping_monotone_sign_zero_witness:
  "(0::real) < 1 \<and> (1::real) < 2 \<and> getBinNumber 1 \<le> getBinNumber 2 \<and>
   getBinNumber 1 = 0 \<and> getBinNumber (- 1) = - 14002 \<and> getBinNumber 0 = - 7001 \<and>
   getBinNumber (- 1) \<noteq> getBinNumber 1 \<and> getBinNumber 1 \<noteq> getBinNumber 0"
  using bin_mapping_monotone_sign_zero [of 1 2 1]
  by (simp add: getBinNumber_def constrainBinToAllowedRange_def bin_constants)

text \<open>
  C7.  The claim is that the parsed interval is
  \<open>days * 86400 + hours * 3600 + minutes * 60 + seconds\<close> with the fraction of the seconds
  kept.  The code reads the seconds with \<open>parseInt\<close>: \<open>PT1.5S\<close> parses to 1, not to 1.5,
  the fraction of \<open>4.567\<close> is lost, and \<open>PT0.5S\<close>, half a second, is rejected as not above
  zero.
\<close>

theorem duration_fraction_dropped:
  "parseISO8601DurationString ''PT1.5S'' = Inr 1 \<and>
   parseISO8601DurationString ''P1DT2H3M4.567S'' = Inr (1 * 86400 + 2 * 3600 + 3 * 60 + 4) \<and>
   validateGetMetricDataRequest_timeshift parseFullMetric
     [Str fullMetric, Str stat, Str ''PT0.5S'', Num 1] =
     Inl (validation_error ''Illegal shift interval PT0.5S specified, must be > 0 seconds'')"
  by (simp add: parseISO8601DurationString_def validateGetMetricDataRequest_timeshift_def
      opt_group_def secs_group_def is_digit_def parseInt10_def group_value_def)

section \<open>Multi region: proofs\<close>




lemma promise_all_fulfils:
  "rejections ps = [] \<Longrightarrow> promise_all ps = Inr (fulfilments ps)"
  by (simp add: promise_all_def)




section \<open>Histogram: proofs\<close>

lemma histogram_loop_stuck:
  assumes "histogram_loop toPrecision metric rangePeriod maxBucketNum incBucket bin bottom defs = Some y"
  shows "\<not> (incBucket = 0 \<and> bin \<le> real_of_int maxBucketNum)"
  by (rule histogram_loop.raw_induct
        [where P = "\<lambda>_ _ _ maxB inc b _ _ _. \<not> (inc = 0 \<and> b \<le> real_of_int maxB)", OF _ assms])
     (fastforce split: if_splits)

text \<open>
  C5.  The claim is that bucket construction returns for every range with
  \<open>Minimum \<le> Maximum\<close> and every bucket count from 1 to 500.  For a metric whose
  minimum and maximum are both 1 the two bin numbers coincide, the step \<open>incBucket\<close> is
  zero and the loop never leaves its first bin: the call does not return, whatever the
  bucket count.
\<close>

theorem histogram_single_value_never_returns:
  "getHistogramMetricDefinitions toPrecision metric 1 1 rangePeriod bucketCount = None"
proof (cases "getHistogramMetricDefinitions toPrecision metric 1 1 rangePeriod bucketCount")
  case None
  then show ?thesis .
next
  case (Some y)
  then have "histogram_loop toPrecision metric rangePeriod 0 0 0 1 [] = Some y"
    by (simp add: getHistogramMetricDefinitions_def getBinNumber_one MIN_VALUE_FOR_HIST_def)
  from histogram_loop_stuck [OF this] show ?thesis by simp
qed

lemma pow_97: "(10000::real) \<le> (11 / 10) ^ 97"
  by (simp add: power_divide divide_simps)

lemma pow_96: "(11 / 10) ^ 96 < (10000::real)"
  by (simp add: power_divide divide_simps)

lemma floor_bin_of_floor_value: "\<lfloor>ln (1 / 10000) / ln (11 / 10 :: real)\<rfloor> = - 97"
proof -
  have p: "0 < ln (11 / 10 :: real)" by simp
  have "ln ((11 / 10 :: real) ^ 96) < ln 10000"
    using pow_96 by (subst ln_less_cancel_iff) simp_all
  then have b: "96 * ln (11 / 10 :: real) < ln 10000"
    by (simp add: ln_realpow)
  have "ln 10000 \<le> ln ((11 / 10 :: real) ^ 97)"
    using pow_97 by (subst ln_le_cancel_iff) simp_all
  then have a: "ln 10000 \<le> 97 * ln (11 / 10 :: real)"
    by (simp add: ln_realpow)
  have e: "ln (1 / 10000 :: real) = - ln 10000"
    by (simp add: ln_div)
  show ?thesis
    by (rule floor_unique) (use a b p in \<open>simp_all add: e field_simps\<close>)
qed

lemma getBinNumber_floor_value: "getBinNumber MIN_VALUE_FOR_HIST = - 97"
  using floor_bin_of_floor_value
  by (simp add: getBinNumber_def constrainBinToAllowedRange_def bin_constants)

lemma js_round_of_int: "js_round (real_of_int n) = n"
  by (simp add: js_round_def)

lemma MIN_VALUE_FOR_HIST_pos: "0 < MIN_VALUE_FOR_HIST"
  by (simp add: MIN_VALUE_FOR_HIST_def)

lemma histogram_loop_step:
  "bin \<le> real_of_int maxBucketNum \<Longrightarrow>
   histogram_loop toPrecision metric rangePeriod maxBucketNum incBucket bin bottom defs =
   histogram_loop toPrecision metric rangePeriod maxBucketNum incBucket (bin + incBucket)
     (getBinTop (js_round bin))
     (defs @
       [\<lparr>Query_Id = CHR ''m'' # show_int (js_round bin),
         Query_Label = toPrecision ((getBinTop (js_round bin) + bottom) / 2) 6,
         Query_Metric = metric,
         Query_Stat = ''PR('' @ toPrecision bottom 6 @ '':'' @
                      toPrecision (getBinTop (js_round bin)) 6 @ '')'',
         Query_Period = rangePeriod\<rparr>])"
  by (subst histogram_loop.simps) (simp add: getLabelForValue_def)

lemma histogram_loop_stop:
  "\<not> bin \<le> real_of_int maxBucketNum \<Longrightarrow>
   histogram_loop toPrecision metric rangePeriod maxBucketNum incBucket bin bottom defs = Some defs"
  by (subst histogram_loop.simps) simp

lemma histogram_loop_two_steps:
  assumes less: "minBucketNum < maxBucketNum"
    and inc: "incBucket = real_of_int maxBucketNum - real_of_int minBucketNum"
  shows "histogram_loop toPrecision metric rangePeriod maxBucketNum incBucket
           (real_of_int minBucketNum) bottom [] =
         Some
          [\<lparr>Query_Id = CHR ''m'' # show_int minBucketNum,
            Query_Label = toPrecision ((getBinTop minBucketNum + bottom) / 2) 6,
            Query_Metric = metric,
            Query_Stat = ''PR('' @ toPrecision bottom 6 @ '':'' @
                         toPrecision (getBinTop minBucketNum) 6 @ '')'',
            Query_Period = rangePeriod\<rparr>,
           \<lparr>Query_Id = CHR ''m'' # show_int maxBucketNum,
            Query_Label =
              toPrecision ((getBinTop maxBucketNum + getBinTop minBucketNum) / 2) 6,
            Query_Metric = metric,
            Query_Stat = ''PR('' @ toPrecision (getBinTop minBucketNum) 6 @ '':'' @
                         toPrecision (getBinTop maxBucketNum) 6 @ '')'',
            Query_Period = rangePeriod\<rparr>]"
proof -
  have first: "real_of_int minBucketNum \<le> real_of_int maxBucketNum"
    using less by simp
  have second: "real_of_int minBucketNum + incBucket = real_of_int maxBucketNum"
    by (simp add: inc)
  have stop: "\<not> real_of_int maxBucketNum + incBucket \<le> real_of_int maxBucketNum"
    using less by (simp add: inc)
  show ?thesis
    by (simp add: histogram_loop_step [OF first] second histogram_loop_step [OF order_refl]
        histogram_loop_stop [OF stop] js_round_of_int)
qed

text \<open>
  C6.  The claim is that a bucket count of 1 gives exactly one bucket over the whole
  clamped range.  For a minimum of 0, below the floor \<open>0.0001\<close> and so binned as the floor
  (bin \<open>-97\<close>), and a maximum of 1 (bin \<open>0\<close>), the step is the whole span and the loop
  runs for \<open>bin = -97\<close> and once more for \<open>bin = 0\<close>, because its test
  \<open>bin <= maxBucketNum\<close> admits the last bin: two definitions are returned, for the
  ranges from 0 to the top of bin \<open>-97\<close> and from there to the top of bin \<open>0\<close>, each
  labelled by the midpoint of its own range.
\<close>

theorem histogram_one_bucket_gives_two:
  "getHistogramMetricDefinitions toPrecision metric 0 1 rangePeriod 1 =
     Some
      [\<lparr>Query_Id = ''m-97'',
        Query_Label = toPrecision ((getBinTop (- 97) + 0) / 2) 6,
        Query_Metric = metric,
        Query_Stat = ''PR('' @ toPrecision 0 6 @ '':'' @ toPrecision (getBinTop (- 97)) 6 @ '')'',
        Query_Period = rangePeriod\<rparr>,
       \<lparr>Query_Id = ''m0'',
        Query_Label = toPrecision ((getBinTop 0 + getBinTop (- 97)) / 2) 6,
        Query_Metric = metric,
        Query_Stat = ''PR('' @ toPrecision (getBinTop (- 97)) 6 @ '':'' @
                     toPrecision (getBinTop 0) 6 @ '')'',
        Query_Period = rangePeriod\<rparr>]"
proof -
  have "getHistogramMetricDefinitions toPrecision metric 0 1 rangePeriod 1 =
        histogram_loop toPrecision metric rangePeriod 0 97 (real_of_int (- 97)) 0 []"
    by (simp add: getHistogramMetricDefinitions_def getBinNumber_floor_value getBinNumber_one
        MIN_VALUE_FOR_HIST_pos)
  also have "\<dots> = Some
      [\<lparr>Query_Id = CHR ''m'' # show_int (- 97),
        Query_Label = toPrecision ((getBinTop (- 97) + 0) / 2) 6,
        Query_Metric = metric,
        Query_Stat = ''PR('' @ toPrecision 0 6 @ '':'' @ toPrecision (getBinTop (- 97)) 6 @ '')'',
        Query_Period = rangePeriod\<rparr>,
       \<lparr>Query_Id = CHR ''m'' # show_int 0,
        Query_Label = toPrecision ((getBinTop 0 + getBinTop (- 97)) / 2) 6,
        Query_Metric = metric,
        Query_Stat = ''PR('' @ toPrecision (getBinTop (- 97)) 6 @ '':'' @
                     toPrecision (getBinTop 0) 6 @ '')'',
        Query_Period = rangePeriod\<rparr>]"
    by (rule histogram_loop_two_steps) simp_all
  finally show ?thesis
    by (simp add: show_int_def show_nat.simps)
qed

section \<open>Moving average: proofs\<close>




lemma time_grid_bounds:
  "x \<in> set (time_grid start EndTime Period) \<Longrightarrow> start \<le> x \<and> x < EndTime"
proof (induction start EndTime Period rule: time_grid.induct)
  case (1 start EndTime Period)
  then show ?case
    by (subst (asm) (2) time_grid.simps) (auto split: if_splits)
qed


lemma push_value_window [simp]: "windowOfValues (push_value v s) = windowOfValues s @ [v]"
  by (simp add: push_value_def split: option.splits)

lemma push_value_out [simp]:
  "avgTimestamps (push_value v s) = avgTimestamps s" "avgValues (push_value v s) = avgValues s"
  by (simp_all add: push_value_def split: option.splits)


lemma shift_value_window [simp]: "windowOfValues (shift_value s) = tl (windowOfValues s)"
  by (simp add: shift_value_def split: list.splits option.splits)

lemma shift_value_out [simp]:
  "avgTimestamps (shift_value s) = avgTimestamps s" "avgValues (shift_value s) = avgValues s"
  by (simp_all add: shift_value_def split: list.splits option.splits)


lemma emit_average_window [simp]: "windowOfValues (emit_average t s) = windowOfValues s"
  by (simp add: emit_average_def)

















lemma step_emits_in_window:
  "t \<in> set (avgTimestamps (movingAverageStep tsMap StartTime time s)) \<Longrightarrow>
   t \<in> set (avgTimestamps s) \<or> (t = time \<and> StartTime \<le> t)"
  by (auto simp: movingAverageStep_def emit_average_def Let_def split: if_splits)

lemma walk_emits_in_window:
  "t \<in> set (avgTimestamps (fold (movingAverageStep tsMap StartTime) xs s)) \<Longrightarrow>
   t \<in> set (avgTimestamps s) \<or> (t \<in> set xs \<and> StartTime \<le> t)"
proof (induction xs arbitrary: s)
  case Nil
  then show ?case by simp
next
  case (Cons x xs)
  from Cons.IH [of "movingAverageStep tsMap StartTime x s"] Cons.prems
  have "t \<in> set (avgTimestamps (movingAverageStep tsMap StartTime x s)) \<or>
        (t \<in> set xs \<and> StartTime \<le> t)"
    by simp
  then show ?case
    using step_emits_in_window [of t tsMap StartTime x s] by auto
qed

lemma metricDataToMovingAverage_in_window:
  assumes "0 < Period"
  shows "\<exists>out. metricDataToMovingAverage metricData revisedStartTime StartTime EndTime Period = Some out \<and>
           (\<forall>t \<in> set (Timestamps out). StartTime \<le> t \<and> t < EndTime)"
proof -
  let ?s = "fold (movingAverageStep
               (timestampMap (Timestamps metricData) (Values metricData) Map.empty) StartTime)
              (time_grid revisedStartTime EndTime Period) mavg_init"
  have "\<forall>t \<in> set (avgTimestamps ?s). StartTime \<le> t \<and> t < EndTime"
    using walk_emits_in_window [of _ _ StartTime "time_grid revisedStartTime EndTime Period" mavg_init]
      time_grid_bounds [of _ revisedStartTime EndTime Period]
    by (fastforce simp: mavg_init_def)
  then show ?thesis
    by (simp add: metricDataToMovingAverage_def for_time_fold [OF assms])
qed

lemma movingAverage_handler_in_window:
  assumes "0 < Period"
  shows "\<exists>r. getMetricDataEventHandler_movingAverage parseFullMetric StartTime EndTime Period
               Arguments getMetricDataResult = Some r \<and>
             (\<forall>results. r = Inr results \<longrightarrow>
                (\<forall>out \<in> set results. \<forall>t \<in> set (Timestamps out). StartTime \<le> t \<and> t < EndTime))"
  using metricDataToMovingAverage_in_window [OF assms]
  apply (simp add: getMetricDataEventHandler_movingAverage_def
      split: sum.splits prod.splits list.splits)
  apply (intro allI impI conjI)
  apply fastforce+
  done

section \<open>Time shift: proofs\<close>

lemma shift_fold:
  "fold (shift_body m off) xs (tss, vs) =
     (tss @ filter (\<lambda>t. m (t - off) \<noteq> None) xs,
      vs @ map (\<lambda>t. the (m (t - off))) (filter (\<lambda>t. m (t - off) \<noteq> None) xs))"
  by (induction xs arbitrary: tss vs) (auto simp: shift_body_def split: option.splits)

lemma shifted_metric_eq:
  assumes "0 < Period"
  shows "shifted_metric m StartTime EndTime Period shiftInterval i =
         Some \<lparr>Id = None,
               Label = (if i = 0 then ''current''
                        else ''- '' @ convertSecondsToHumanReadable (int i * shiftInterval)),
               Timestamps = filter (\<lambda>t. m (t - int i * shiftInterval) \<noteq> None)
                              (time_grid StartTime EndTime Period),
               Values = map (\<lambda>t. the (m (t - int i * shiftInterval)))
                          (filter (\<lambda>t. m (t - int i * shiftInterval) \<noteq> None)
                             (time_grid StartTime EndTime Period)),
               Status = Some ''Complete'', StatusCode = None\<rparr>"
  by (simp add: shifted_metric_def Let_def for_time_fold [OF assms] shift_fold)

lemma those_map_Some: "those (map (\<lambda>x. Some (f x)) xs) = Some (map f xs)"
  by (induction xs) simp_all

lemma shiftFullMetricData_eq:
  assumes "0 < Period"
  shows "shiftFullMetricData fullMetricData StartTime EndTime Period shiftInterval numberOfShifts =
         Some (map (\<lambda>i. the (shifted_metric
                   (timestampMap (Timestamps fullMetricData) (Values fullMetricData) Map.empty)
                   StartTime EndTime Period shiftInterval i))
                 [0 ..< nat (\<lfloor>numberOfShifts\<rfloor> + 1)])"
proof -
  have "map (shifted_metric
               (timestampMap (Timestamps fullMetricData) (Values fullMetricData) Map.empty)
               StartTime EndTime Period shiftInterval) [0 ..< nat (\<lfloor>numberOfShifts\<rfloor> + 1)] =
        map (\<lambda>i. Some (the (shifted_metric
               (timestampMap (Timestamps fullMetricData) (Values fullMetricData) Map.empty)
               StartTime EndTime Period shiftInterval i))) [0 ..< nat (\<lfloor>numberOfShifts\<rfloor> + 1)]"
    by (simp add: shifted_metric_eq [OF assms])
  then show ?thesis
    by (simp only: shiftFullMetricData_def those_map_Some)
qed

lemma time_grid_mem:
  assumes "0 < Period"
  shows "t \<in> set (time_grid start EndTime Period) \<longleftrightarrow>
         start \<le> t \<and> t < EndTime \<and> (t - start) mod Period = 0"
  using assms
proof (induction start EndTime Period rule: time_grid.induct)
  case (1 start EndTime Period)
  show ?case
  proof (cases "start < EndTime")
    case False
    then show ?thesis
      by (subst time_grid.simps) auto
  next
    case True
    have "t - (start + Period) = t - start - Period"
      by simp
    then have step: "(t - (start + Period)) mod Period = (t - start) mod Period"
      by (simp only: minus_mod_self2)
    have "t \<in> set (time_grid start EndTime Period) \<longleftrightarrow>
          t = start \<or> t \<in> set (time_grid (start + Period) EndTime Period)"
      using True "1.prems" by (subst time_grid.simps) simp
    also have "\<dots> \<longleftrightarrow> t = start \<or>
          (start + Period \<le> t \<and> t < EndTime \<and> (t - start) mod Period = 0)"
      using "1.IH" True "1.prems" by (simp add: step)
    also have "\<dots> \<longleftrightarrow> start \<le> t \<and> t < EndTime \<and> (t - start) mod Period = 0"
    proof -
      have "start \<le> t \<Longrightarrow> (t - start) mod Period = 0 \<Longrightarrow> t \<noteq> start \<Longrightarrow> start + Period \<le> t"
      proof -
        assume a: "start \<le> t" "(t - start) mod Period = 0" "t \<noteq> start"
        then have "Period dvd (t - start)" by (simp add: dvd_eq_mod_eq_0)
        moreover have "0 < t - start" using a by simp
        ultimately have "Period \<le> t - start" by (rule zdvd_imp_le)
        then show ?thesis by simp
      qed
      then show ?thesis
        using True "1.prems" by auto
    qed
    finally show ?thesis .
  qed
qed

lemma time_grid_sorted: "sorted_wrt (<) (time_grid start EndTime Period)"
proof (induction start EndTime Period rule: time_grid.induct)
  case (1 start EndTime Period)
  show ?case
  proof (cases "start < EndTime \<and> 0 < Period")
    case False
    then show ?thesis by (subst time_grid.simps) auto
  next
    case True
    have "\<forall>x \<in> set (time_grid (start + Period) EndTime Period). start < x"
      using time_grid_bounds [of _ "start + Period" EndTime Period] True by fastforce
    with "1.IH" True show ?thesis
      by (subst time_grid.simps) simp
  qed
qed

lemma timestampMap_distinct:
  "distinct ts \<Longrightarrow> length vs = length ts \<Longrightarrow>
   timestampMap ts vs m = m ++ map_of (zip ts vs)"
proof (induction ts arbitrary: vs m)
  case Nil
  then show ?case by simp
next
  case (Cons t ts)
  then obtain v vs' where vs: "vs = v # vs'" by (cases vs) auto
  from Cons.prems have notin: "map_of (zip ts vs') t = None"
    by (simp add: vs map_of_zip_is_None)
  have "timestampMap (t # ts) vs m = timestampMap ts vs' (m(t \<mapsto> v))"
    by (simp add: vs)
  also have "\<dots> = m(t \<mapsto> v) ++ map_of (zip ts vs')"
    using Cons.prems by (intro Cons.IH) (simp_all add: vs)
  also have "\<dots> = m ++ (map_of (zip ts vs'))(t \<mapsto> v)"
  proof (rule ext)
    fix x
    show "(m(t \<mapsto> v) ++ map_of (zip ts vs')) x = (m ++ (map_of (zip ts vs'))(t \<mapsto> v)) x"
      using notin by (cases "x = t") (simp_all add: map_add_def split: option.splits)
  qed
  also have "\<dots> = m ++ map_of (zip (t # ts) vs)"
    by (simp add: vs)
  finally show ?case .
qed

lemma map_of_zip_values:
  "distinct ts \<Longrightarrow> length vs = length ts \<Longrightarrow>
   map (\<lambda>t. the (map_of (zip ts vs) t)) (filter Q ts) =
     map snd (filter (\<lambda>(t, v). Q t) (zip ts vs))"
proof (induction ts arbitrary: vs)
  case Nil
  then show ?case by simp
next
  case (Cons t ts)
  then obtain v vs' where vs: "vs = v # vs'" by (cases vs) auto
  have "map (\<lambda>x. the (map_of (zip (t # ts) vs) x)) (filter Q ts) =
        map (\<lambda>x. the (map_of (zip ts vs') x)) (filter Q ts)"
    using Cons.prems by (intro map_cong) (auto simp: vs)
  with Cons.IH [of vs'] Cons.prems show ?case
    by (simp add: vs)
qed

lemma filter_grid_raw:
  assumes period: "0 < Period"
    and sorted: "sorted_wrt (<) ts"
    and len: "length vs = length ts"
    and grid: "\<forall>t \<in> set ts. (t - start) mod Period = 0"
  shows "filter (\<lambda>t. map_of (zip ts vs) t \<noteq> None) (time_grid start EndTime Period) =
         filter (\<lambda>t. start \<le> t \<and> t < EndTime) ts"
proof (rule sorted_distinct_set_unique)
  show "sorted (filter (\<lambda>t. map_of (zip ts vs) t \<noteq> None) (time_grid start EndTime Period))"
    using time_grid_sorted [of start EndTime Period] by (simp add: strict_sorted_iff sorted_filter [where f = "\<lambda>x. x", simplified])
  show "distinct (filter (\<lambda>t. map_of (zip ts vs) t \<noteq> None) (time_grid start EndTime Period))"
    using time_grid_sorted [of start EndTime Period] by (simp add: strict_sorted_iff)
  show "sorted (filter (\<lambda>t. start \<le> t \<and> t < EndTime) ts)"
    using sorted by (simp add: strict_sorted_iff sorted_filter [where f = "\<lambda>x. x", simplified])
  show "distinct (filter (\<lambda>t. start \<le> t \<and> t < EndTime) ts)"
    using sorted by (simp add: strict_sorted_iff)
  have "\<And>t. map_of (zip ts vs) t \<noteq> None \<longleftrightarrow> t \<in> set ts"
    using len by (metis domIff dom_map_of_zip)
  then show "set (filter (\<lambda>t. map_of (zip ts vs) t \<noteq> None) (time_grid start EndTime Period)) =
        set (filter (\<lambda>t. start \<le> t \<and> t < EndTime) ts)"
    using grid by (auto simp: time_grid_mem [OF period])
qed

lemma validate_timeshift_accepts:
  assumes "validateGetMetricDataRequest_timeshift parseFullMetric Arguments =
             Inr (metric, stat, shiftInterval, numberOfShifts)"
  shows "0 < shiftInterval \<and> 1 \<le> numberOfShifts \<and> numberOfShifts \<le> 10"
  using assms
  by (auto simp: validateGetMetricDataRequest_timeshift_def
      split: list.splits js_value.splits sum.splits if_splits)

lemma js_rem_dvd: "b dvd a \<Longrightarrow> js_rem a b = 0"
  by (simp add: js_rem_def)

lemma js_rem_nonneg:
  "0 \<le> a \<Longrightarrow> 0 < b \<Longrightarrow> js_rem a b = a mod b"
  by (cases "a = 0") (simp_all add: js_rem_def)

text \<open>
  C2.  The claim restricts the raw series to \<open>[StartTime, EndTime)\<close>.  The handler first
  rounds the start down, \<open>roundedStart = StartTime - (StartTime % Period)\<close>, and walks the
  grid from there.  As amended: for a positive \<open>Period\<close>, accepted arguments and a raw
  series with strictly ascending timestamps, one value per timestamp and every
  timestamp on the grid of \<open>roundedStart\<close>, the series of shift index 0 is the raw series
  restricted to \<open>[roundedStart, EndTime)\<close>: exactly the raw samples with a timestamp in
  that range, values unchanged, nothing resampled.  \<open>roundedStart\<close> is \<open>StartTime\<close> when
  \<open>Period\<close> divides \<open>StartTime\<close>.
\<close>

theorem timeshift_current_is_raw_on_rounded_window:
  assumes period: "0 < Period"
    and args: "validateGetMetricDataRequest_timeshift parseFullMetric Arguments =
                 Inr (metric, stat, shiftInterval, numberOfShifts)"
    and response: "gmdResponse = Inr (raw # others)"
    and sorted: "sorted_wrt (<) (Timestamps raw)"
    and len: "length (Values raw) = length (Timestamps raw)"
    and grid: "\<forall>t \<in> set (Timestamps raw).
                 (t - (StartTime - js_rem StartTime Period)) mod Period = 0"
  shows "(\<exists>shifted.
           getMetricDataEventHandler_timeshift parseFullMetric StartTime EndTime Period
             Arguments gmdResponse =
           Some (Inr
            (\<lparr>Id = None, Label = ''current'',
              Timestamps =
                filter (\<lambda>t. StartTime - js_rem StartTime Period \<le> t \<and> t < EndTime)
                  (Timestamps raw),
              Values =
                map snd
                  (filter (\<lambda>(t, v). StartTime - js_rem StartTime Period \<le> t \<and> t < EndTime)
                     (zip (Timestamps raw) (Values raw))),
              Status = Some ''Complete'', StatusCode = None\<rparr> # shifted))) \<and>
         (Period dvd StartTime \<longrightarrow> StartTime - js_rem StartTime Period = StartTime)"
proof
  let ?rs = "StartTime - js_rem StartTime Period"
  let ?m = "timestampMap (Timestamps raw) (Values raw) Map.empty"
  let ?n = "nat (\<lfloor>numberOfShifts\<rfloor> + 1)"
  have distinct: "distinct (Timestamps raw)"
    using sorted by (simp add: strict_sorted_iff)
  have m: "?m = map_of (zip (Timestamps raw) (Values raw))"
    using timestampMap_distinct [OF distinct len, of Map.empty] by simp
  have "1 \<le> numberOfShifts"
    using validate_timeshift_accepts [OF args] by simp
  then have "0 < ?n"
    by (simp add: le_floor_iff)
  then have upt: "[0 ..< ?n] = 0 # [1 ..< ?n]"
    by (simp add: upt_conv_Cons)
  have ts: "filter (\<lambda>t. ?m t \<noteq> None) (time_grid ?rs EndTime Period) =
            filter (\<lambda>t. ?rs \<le> t \<and> t < EndTime) (Timestamps raw)"
    unfolding m by (rule filter_grid_raw [OF period sorted len grid])
  have vs: "map (\<lambda>t. the (?m t)) (filter (\<lambda>t. ?rs \<le> t \<and> t < EndTime) (Timestamps raw)) =
            map snd (filter (\<lambda>(t, v). ?rs \<le> t \<and> t < EndTime)
                       (zip (Timestamps raw) (Values raw)))"
    unfolding m by (rule map_of_zip_values [OF distinct len])
  have current: "the (shifted_metric ?m ?rs EndTime Period shiftInterval 0) =
      \<lparr>Id = None, Label = ''current'',
        Timestamps = filter (\<lambda>t. ?rs \<le> t \<and> t < EndTime) (Timestamps raw),
        Values = map snd (filter (\<lambda>(t, v). ?rs \<le> t \<and> t < EndTime)
                            (zip (Timestamps raw) (Values raw))),
        Status = Some ''Complete'', StatusCode = None\<rparr>"
    using ts vs by (simp add: shifted_metric_eq [OF period])
  have "getMetricDataEventHandler_timeshift parseFullMetric StartTime EndTime Period
          Arguments gmdResponse =
        Some (Inr (map (\<lambda>i. the (shifted_metric ?m ?rs EndTime Period shiftInterval i))
                     [0 ..< ?n]))"
    using period
    by (simp add: getMetricDataEventHandler_timeshift_def args response
        shiftFullMetricData_eq [OF period])
  also have "\<dots> = Some (Inr (the (shifted_metric ?m ?rs EndTime Period shiftInterval 0) #
                 map (\<lambda>i. the (shifted_metric ?m ?rs EndTime Period shiftInterval i)) [1 ..< ?n]))"
    by (simp only: upt list.map)
  finally show "\<exists>shifted.
           getMetricDataEventHandler_timeshift parseFullMetric StartTime EndTime Period
             Arguments gmdResponse =
           Some (Inr
            (\<lparr>Id = None, Label = ''current'',
              Timestamps = filter (\<lambda>t. ?rs \<le> t \<and> t < EndTime) (Timestamps raw),
              Values = map snd (filter (\<lambda>(t, v). ?rs \<le> t \<and> t < EndTime)
                                  (zip (Timestamps raw) (Values raw))),
              Status = Some ''Complete'', StatusCode = None\<rparr> # shifted))"
    unfolding current by blast
next
  show "Period dvd StartTime \<longrightarrow> StartTime - js_rem StartTime Period = StartTime"
    by (simp add: js_rem_dvd)
qed

lemma timeshift_handler_in_window:
  assumes "0 < Period"
  shows "\<exists>r. getMetricDataEventHandler_timeshift parseFullMetric StartTime EndTime Period
               Arguments gmdResponse = Some r \<and>
             (\<forall>results. r = Inr results \<longrightarrow>
                (\<forall>out \<in> set results. \<forall>t \<in> set (Timestamps out).
                   StartTime - js_rem StartTime Period \<le> t \<and> t < EndTime))"
proof -
  have series: "\<And>m i t. t \<in> set (Timestamps (the (shifted_metric m
                    (StartTime - js_rem StartTime Period) EndTime Period shiftInterval i))) \<Longrightarrow>
                  StartTime - js_rem StartTime Period \<le> t \<and> t < EndTime" for shiftInterval
    using time_grid_bounds [of _ "StartTime - js_rem StartTime Period" EndTime Period]
    by (auto simp: shifted_metric_eq [OF assms])
  show ?thesis
    using assms
    by (auto simp: getMetricDataEventHandler_timeshift_def shiftFullMetricData_eq [OF assms]
        split: sum.splits prod.splits list.splits dest: series)
qed

text \<open>The theorem at \<open>StartTime = 90\<close>, \<open>Period = 60\<close>: the start is rounded to 60.\<close>

theorem timeshift_current_is_raw_on_rounded_window_witness:
  "getMetricDataEventHandler_timeshift Inr 90 330 60
     [Str ''AWS/EC2,CPUUtilization'', Str ''Average'', Str ''PT2M'', Num 1]
     (Inr [\<lparr>Id = Some ''m1'', Label = ''cpu'', Timestamps = [60, 120, 180, 240, 300],
             Values = [30, 10, 20, 60, 50], Status = None, StatusCode = None\<rparr>]) =
   Some (Inr
     [\<lparr>Id = None, Label = ''current'', Timestamps = [60, 120, 180, 240, 300],
        Values = [30, 10, 20, 60, 50], Status = Some ''Complete'', StatusCode = None\<rparr>,
      \<lparr>Id = None, Label = ''- 2m'', Timestamps = [180, 240, 300],
        Values = [30, 10, 20], Status = Some ''Complete'', StatusCode = None\<rparr>])"
proof -
  let ?raw = "\<lparr>Id = Some ''m1'', Label = ''cpu'', Timestamps = [60, 120, 180, 240, 300],
      Values = [30, 10, 20, 60, 50], Status = None, StatusCode = None\<rparr>"
  let ?args = "[Str ''AWS/EC2,CPUUtilization'', Str ''Average'', Str ''PT2M'', Num 1]"
  have period: "(0::int) < 60" by simp
  have args: "validateGetMetricDataRequest_timeshift Inr ?args =
      Inr (''AWS/EC2,CPUUtilization'', ''Average'', 120, 1)"
    by (simp add: validateGetMetricDataRequest_timeshift_def parseISO8601DurationString_def
        opt_group_def secs_group_def is_digit_def parseInt10_def group_value_def)
  have response: "Inr [?raw] = Inr (?raw # [])" by simp
  have sorted: "sorted_wrt (<) (Timestamps ?raw)" by simp
  have len: "length (Values ?raw) = length (Timestamps ?raw)" by simp
  have grid: "\<forall>t \<in> set (Timestamps ?raw). (t - (90 - js_rem 90 60)) mod 60 = 0"
    by (simp add: js_rem_def)
  from timeshift_current_is_raw_on_rounded_window
    [OF period args response sorted len grid, of 330]
  obtain shifted where current:
    "getMetricDataEventHandler_timeshift Inr 90 330 60 ?args (Inr [?raw]) =
     Some (Inr
      (\<lparr>Id = None, Label = ''current'',
        Timestamps = filter (\<lambda>t. 90 - js_rem 90 60 \<le> t \<and> t < 330) (Timestamps ?raw),
        Values = map snd (filter (\<lambda>(t, v). 90 - js_rem 90 60 \<le> t \<and> t < 330)
                            (zip (Timestamps ?raw) (Values ?raw))),
        Status = Some ''Complete'', StatusCode = None\<rparr> # shifted))"
    by blast
  have rest: "getMetricDataEventHandler_timeshift Inr 90 330 60 ?args (Inr [?raw]) =
     Some (Inr
     [\<lparr>Id = None, Label = ''current'', Timestamps = [60, 120, 180, 240, 300],
        Values = [30, 10, 20, 60, 50], Status = Some ''Complete'', StatusCode = None\<rparr>,
      \<lparr>Id = None, Label = ''- 2m'', Timestamps = [180, 240, 300],
        Values = [30, 10, 20], Status = Some ''Complete'', StatusCode = None\<rparr>])"
    by code_simp
  from current rest have "shifted =
      [\<lparr>Id = None, Label = ''- 2m'', Timestamps = [180, 240, 300],
         Values = [30, 10, 20], Status = Some ''Complete'', StatusCode = None\<rparr>]"
    by simp
  with current show ?thesis
    by (simp add: js_rem_def)
qed

text \<open>
  The claim as stated fails for a start that is not a multiple of the period: with the
  window \<open>[100, 340)\<close> and \<open>Period = 60\<close> the series of shift index 0 holds the raw
  sample at 60, which the restriction to \<open>[100, 340)\<close>, the samples at 120 to 300, leaves
  out.
\<close>

theorem timeshift_current_outside_window_counterexample:
  "getMetricDataEventHandler_timeshift Inr 100 340 60
     [Str ''AWS/EC2,CPUUtilization'', Str ''Average'', Str ''P1D'', Num 1]
     (Inr [\<lparr>Id = Some ''m1'', Label = ''cpu'', Timestamps = [60, 120, 180, 240, 300],
             Values = [30, 10, 20, 60, 50], Status = None, StatusCode = None\<rparr>]) =
   Some (Inr
     [\<lparr>Id = None, Label = ''current'', Timestamps = [60, 120, 180, 240, 300],
        Values = [30, 10, 20, 60, 50], Status = Some ''Complete'', StatusCode = None\<rparr>,
      \<lparr>Id = None, Label = ''- 1d'', Timestamps = [],
        Values = [], Status = Some ''Complete'', StatusCode = None\<rparr>]) \<and>
   \<not> (100 \<le> (60::int)) \<and>
   [60, 120, 180, 240, 300] \<noteq> [120, 180, 240, 300 :: int]"
  by code_simp

text \<open>
  C3.  The claim has every output timestamp of both connectors inside
  \<open>[StartTime, EndTime)\<close>.  As amended: for a positive \<open>Period\<close> both handlers return;
  every timestamp of a moving-average output lies in \<open>[StartTime, EndTime)\<close>, wherever
  the walk started; every timestamp of a time-shift output lies in
  \<open>[roundedStart, EndTime)\<close> with \<open>roundedStart = StartTime - (StartTime % Period)\<close>, which
  is \<open>StartTime\<close> when \<open>Period\<close> divides \<open>StartTime\<close> and otherwise, for a start that is
  not negative, lies less than one \<open>Period\<close> before \<open>StartTime\<close>.
\<close>

theorem outputs_within_window:
  assumes "0 < Period"
  shows "(\<exists>r. getMetricDataEventHandler_movingAverage parseFullMetric StartTime EndTime Period
                 Arguments getMetricDataResult = Some r \<and>
              (\<forall>results. r = Inr results \<longrightarrow>
                 (\<forall>out \<in> set results. \<forall>t \<in> set (Timestamps out).
                    StartTime \<le> t \<and> t < EndTime))) \<and>
         (\<exists>r. getMetricDataEventHandler_timeshift parseFullMetric' StartTime EndTime Period
                 Arguments' gmdResponse = Some r \<and>
              (\<forall>results. r = Inr results \<longrightarrow>
                 (\<forall>out \<in> set results. \<forall>t \<in> set (Timestamps out).
                    StartTime - js_rem StartTime Period \<le> t \<and> t < EndTime))) \<and>
         (Period dvd StartTime \<longrightarrow> StartTime - js_rem StartTime Period = StartTime) \<and>
         (0 \<le> StartTime \<longrightarrow>
            StartTime - Period < StartTime - js_rem StartTime Period \<and>
            StartTime - js_rem StartTime Period \<le> StartTime)"
proof (intro conjI)
  show "\<exists>r. getMetricDataEventHandler_movingAverage parseFullMetric StartTime EndTime Period
                 Arguments getMetricDataResult = Some r \<and>
              (\<forall>results. r = Inr results \<longrightarrow>
                 (\<forall>out \<in> set results. \<forall>t \<in> set (Timestamps out).
                    StartTime \<le> t \<and> t < EndTime))"
    by (rule movingAverage_handler_in_window [OF assms])
  show "\<exists>r. getMetricDataEventHandler_timeshift parseFullMetric' StartTime EndTime Period
                 Arguments' gmdResponse = Some r \<and>
              (\<forall>results. r = Inr results \<longrightarrow>
                 (\<forall>out \<in> set results. \<forall>t \<in> set (Timestamps out).
                    StartTime - js_rem StartTime Period \<le> t \<and> t < EndTime))"
    by (rule timeshift_handler_in_window [OF assms])
  show "Period dvd StartTime \<longrightarrow> StartTime - js_rem StartTime Period = StartTime"
    by (simp add: js_rem_dvd)
  show "0 \<le> StartTime \<longrightarrow>
            StartTime - Period < StartTime - js_rem StartTime Period \<and>
            StartTime - js_rem StartTime Period \<le> StartTime"
    using assms by (simp add: js_rem_nonneg)
qed

theorem outputs_within_window_witness:
  "getMetricDataEventHandler_movingAverage Inr 120 300 60
     [Str ''AWS/EC2,CPUUtilization'', Str ''Average'', Num 2]
     (Inr [\<lparr>Id = Some ''m1'', Label = ''cpu'', Timestamps = [60, 180, 360],
             Values = [30, 10, 70], Status = None, StatusCode = None\<rparr>,
           \<lparr>Id = Some ''timer'', Label = ''timer'', Timestamps = [60, 120, 180, 240, 300, 360],
             Values = [10, 10, 10, 10, 10, 10], Status = None, StatusCode = None\<rparr>]) =
   Some (Inr [\<lparr>Id = None, Label = ''cpu'', Timestamps = [120, 180, 240],
                Values = [30, 10, 10], Status = Some ''Complete'', StatusCode = None\<rparr>]) \<and>
   getMetricDataEventHandler_timeshift Inr 120 300 60
     [Str ''AWS/EC2,CPUUtilization'', Str ''Average'', Str ''PT1M'', Num 1]
     (Inr [\<lparr>Id = Some ''m1'', Label = ''cpu'', Timestamps = [60, 180, 360],
             Values = [30, 10, 70], Status = None, StatusCode = None\<rparr>]) =
   Some (Inr
     [\<lparr>Id = None, Label = ''current'', Timestamps = [180],
        Values = [10], Status = Some ''Complete'', StatusCode = None\<rparr>,
      \<lparr>Id = None, Label = ''- 1m'', Timestamps = [120, 240],
        Values = [30, 10], Status = Some ''Complete'', StatusCode = None\<rparr>]) \<and>
   (120::int) - js_rem 120 60 = 120"
proof -
  have period: "(0::int) < 60" by simp
  have aligned: "(60::int) dvd 120" by simp
  from outputs_within_window [OF period, of _ 120] aligned
  have start: "(120::int) - js_rem 120 60 = 120"
    by blast
  have ma: "getMetricDataEventHandler_movingAverage Inr 120 300 60
     [Str ''AWS/EC2,CPUUtilization'', Str ''Average'', Num 2]
     (Inr [\<lparr>Id = Some ''m1'', Label = ''cpu'', Timestamps = [60, 180, 360],
             Values = [30, 10, 70], Status = None, StatusCode = None\<rparr>,
           \<lparr>Id = Some ''timer'', Label = ''timer'', Timestamps = [60, 120, 180, 240, 300, 360],
             Values = [10, 10, 10, 10, 10, 10], Status = None, StatusCode = None\<rparr>]) =
   Some (Inr [\<lparr>Id = None, Label = ''cpu'', Timestamps = [120, 180, 240],
                Values = [30, 10, 10], Status = Some ''Complete'', StatusCode = None\<rparr>])"
    by code_simp
  have ts: "getMetricDataEventHandler_timeshift Inr 120 300 60
     [Str ''AWS/EC2,CPUUtilization'', Str ''Average'', Str ''PT1M'', Num 1]
     (Inr [\<lparr>Id = Some ''m1'', Label = ''cpu'', Timestamps = [60, 180, 360],
             Values = [30, 10, 70], Status = None, StatusCode = None\<rparr>]) =
   Some (Inr
     [\<lparr>Id = None, Label = ''current'', Timestamps = [180],
        Values = [10], Status = Some ''Complete'', StatusCode = None\<rparr>,
      \<lparr>Id = None, Label = ''- 1m'', Timestamps = [120, 240],
        Values = [30, 10], Status = Some ''Complete'', StatusCode = None\<rparr>])"
    by code_simp
  from ma ts start show ?thesis
    by (intro conjI)
qed

text \<open>
  The claim as stated fails for the time-shift connector: with the window
  \<open>[130, 250)\<close> and \<open>Period = 60\<close> the walk starts at 120 and the current series holds
  the timestamp 120, before \<open>StartTime\<close>.
\<close>

theorem timeshift_emits_before_start_counterexample:
  "getMetricDataEventHandler_timeshift Inr 130 250 60
     [Str ''AWS/EC2,CPUUtilization'', Str ''Average'', Str ''P1D'', Num 1]
     (Inr [\<lparr>Id = Some ''m1'', Label = ''cpu'', Timestamps = [120, 180, 240],
             Values = [30, 10, 20], Status = None, StatusCode = None\<rparr>]) =
   Some (Inr
     [\<lparr>Id = None, Label = ''current'', Timestamps = [120, 180, 240],
        Values = [30, 10, 20], Status = Some ''Complete'', StatusCode = None\<rparr>,
      \<lparr>Id = None, Label = ''- 1d'', Timestamps = [],
        Values = [], Status = Some ''Complete'', StatusCode = None\<rparr>]) \<and>
   \<not> (130 \<le> (120::int))"
  by code_simp

section \<open>Histogram: when bucket construction returns\<close>

text \<open>
  With a positive step the loop ends, and with a minimum bin above the maximum bin it
  does not start: bucket construction returns unless the two bins coincide.
\<close>

lemma histogram_loop_returns_bounded:
  assumes inc: "0 < incBucket"
  shows "(bin \<le> real_of_int maxBucketNum \<longrightarrow>
            \<lfloor>(real_of_int maxBucketNum - bin) / incBucket\<rfloor> < int n) \<Longrightarrow>
         \<exists>out. histogram_loop toPrecision metric rangePeriod maxBucketNum incBucket bin bottom defs =
                 Some out"
proof (induction n arbitrary: bin bottom defs)
  case 0
  have "\<not> bin \<le> real_of_int maxBucketNum"
  proof
    assume le: "bin \<le> real_of_int maxBucketNum"
    then have "0 \<le> (real_of_int maxBucketNum - bin) / incBucket"
      using inc by simp
    then have "0 \<le> \<lfloor>(real_of_int maxBucketNum - bin) / incBucket\<rfloor>"
      by simp
    with 0 le show False by simp
  qed
  then show ?case
    by (simp add: histogram_loop_stop)
next
  case (Suc n)
  show ?case
  proof (cases "bin \<le> real_of_int maxBucketNum")
    case False
    then show ?thesis
      by (simp add: histogram_loop_stop)
  next
    case True
    have "(real_of_int maxBucketNum - (bin + incBucket)) / incBucket =
          (real_of_int maxBucketNum - bin) / incBucket - 1"
      using inc by (simp add: field_simps)
    then have "\<lfloor>(real_of_int maxBucketNum - (bin + incBucket)) / incBucket\<rfloor> =
               \<lfloor>(real_of_int maxBucketNum - bin) / incBucket\<rfloor> - 1"
      by simp
    with Suc.prems True
    have "\<lfloor>(real_of_int maxBucketNum - (bin + incBucket)) / incBucket\<rfloor> < int n"
      by simp
    then obtain out where
      "histogram_loop toPrecision metric rangePeriod maxBucketNum incBucket (bin + incBucket)
         (getBinTop (js_round bin))
         (defs @
           [\<lparr>Query_Id = CHR ''m'' # show_int (js_round bin),
             Query_Label = toPrecision ((getBinTop (js_round bin) + bottom) / 2) 6,
             Query_Metric = metric,
             Query_Stat = ''PR('' @ toPrecision bottom 6 @ '':'' @
                          toPrecision (getBinTop (js_round bin)) 6 @ '')'',
             Query_Period = rangePeriod\<rparr>]) = Some out"
      using Suc.IH by blast
    then show ?thesis
      by (simp add: histogram_loop_step [OF True])
  qed
qed

lemma histogram_loop_returns:
  assumes "0 < incBucket"
  shows "\<exists>out. histogram_loop toPrecision metric rangePeriod maxBucketNum incBucket bin bottom defs =
                 Some out"
proof -
  define f where "f = \<lfloor>(real_of_int maxBucketNum - bin) / incBucket\<rfloor>"
  have "f < int (nat (f + 1))"
    by linarith
  then have "bin \<le> real_of_int maxBucketNum \<longrightarrow>
      \<lfloor>(real_of_int maxBucketNum - bin) / incBucket\<rfloor> < int (nat (f + 1))"
    by (simp only: f_def simp_thms)
  then show ?thesis
    by (rule histogram_loop_returns_bounded [OF assms])
qed

lemma histogram_returns_unless_same_bin:
  assumes "0 < bucketCount"
    and "getBinNumber (max minimum MIN_VALUE_FOR_HIST) \<noteq> getBinNumber maximum"
  shows "\<exists>defs. getHistogramMetricDefinitions toPrecision metric minimum maximum rangePeriod
                   bucketCount = Some defs"
proof -
  let ?minB = "getBinNumber (max minimum MIN_VALUE_FOR_HIST)"
  let ?maxB = "getBinNumber maximum"
  have unfold: "getHistogramMetricDefinitions toPrecision metric minimum maximum rangePeriod
                  bucketCount =
                histogram_loop toPrecision metric rangePeriod ?maxB
                  (real_of_int (?maxB - ?minB) / real_of_int bucketCount)
                  (real_of_int ?minB) minimum []"
    by (simp add: getHistogramMetricDefinitions_def Let_def max_def not_less)
  show ?thesis
  proof (cases "?minB < ?maxB")
    case True
    then have "0 < real_of_int (?maxB - ?minB) / real_of_int bucketCount"
      using assms(1) by simp
    then show ?thesis
      unfolding unfold by (rule histogram_loop_returns)
  next
    case False
    with assms(2) have "\<not> real_of_int ?minB \<le> real_of_int ?maxB"
      by simp
    then show ?thesis
      unfolding unfold by (simp add: histogram_loop_stop)
  qed
qed

end
